theory Spec2Isabelle
  imports Main
begin

section \<open>The datasets-cli entry point\<close>

text \<open>
  A shallow embedding of \<^verbatim>\<open>src/datasets/commands/datasets_cli.py\<close>: the folding of
  unrecognised command-line tokens into keyword options (\<^verbatim>\<open>parse_unknown_args\<close>) and
  the router (\<^verbatim>\<open>main\<close>) that parses the arguments, selects a subcommand's factory,
  builds the service and runs it.
\<close>

subsection \<open>Python primitives used by the source\<close>

text \<open>
  The slice \<^verbatim>\<open>xs[::2]\<close> keeps the elements at positions 0, 2, 4, ...; the slice
  \<^verbatim>\<open>xs[1::2]\<close> is the same selection applied after the first element is dropped.
  Neither slice raises, whatever the length of the list.
\<close>

fun every_other :: "'a list \<Rightarrow> 'a list" where
  "every_other (x # y # xs) = x # every_other xs"
| "every_other xs = xs"

text \<open>
  \<^verbatim>\<open>s.lstrip(chars)\<close> removes the longest prefix of \<open>s\<close> made of characters that occur
  in \<open>chars\<close>.
\<close>

definition lstrip :: "string \<Rightarrow> string \<Rightarrow> string" where
  "lstrip chars s = dropWhile (\<lambda>c. c \<in> set chars) s"

text \<open>
  A Python dictionary keeps its entries in insertion order. Storing under a key that is
  already present replaces the value where the entry stands; storing under a new key
  appends an entry. The dictionary is an association list with pairwise distinct keys.
\<close>

type_synonym kwargs = "(string \<times> string) list"

fun dict_setitem :: "('k \<times> 'v) list \<Rightarrow> 'k \<Rightarrow> 'v \<Rightarrow> ('k \<times> 'v) list" where
  "dict_setitem [] k v = [(k, v)]"
| "dict_setitem ((k', v') # d) k v =
     (if k' = k then (k', v) # d else (k', v') # dict_setitem d k v)"

subsection \<open>Folding unknown tokens\<close>

text \<open>
  \<^verbatim>\<open>
  def parse_unknown_args(unknown_args):
      return {key.lstrip("-"): value
              for key, value in zip(unknown_args[::2], unknown_args[1::2])}
  \<close>
  \<^verbatim>\<open>zip\<close> stops at the shorter of its two arguments, as \<^const>\<open>zip\<close> does; the
  comprehension stores the pairs from left to right.
\<close>

definition parse_unknown_args :: "string list \<Rightarrow> kwargs" where
  "parse_unknown_args unknown_args =
     foldl (\<lambda>d (key, value). dict_setitem d (lstrip ''-'' key) value) []
       (zip (every_other unknown_args) (every_other (drop 1 unknown_args)))"

subsection \<open>The router\<close>

text \<open>
  What the process does that an observer can see: the logging set-up, text printed by
  the parser, a call of the selected factory with its keyword options, a call of
  \<^verbatim>\<open>run\<close>.
\<close>

datatype stream = Stdout | Stderr

datatype event =
    SetVerbosityInfo
  | PrintHelp stream
  | PrintUsageError stream
  | Construct kwargs
  | Run

text \<open>
  How \<^verbatim>\<open>main\<close> ends: it returns, it raises \<^verbatim>\<open>SystemExit\<close> with a code (the builtin
  \<^verbatim>\<open>exit\<close>, or the parser's own exit), or an exception of the subcommand leaves it.
  The interpreter turns the first into exit status 0, the second into the code and the
  third into a traceback and exit status 1.
\<close>

datatype 'e ending = Returned | SystemExit nat | Uncaught 'e

fun exit_status :: "'e ending \<Rightarrow> nat" where
  "exit_status Returned = 0"
| "exit_status (SystemExit code) = code"
| "exit_status (Uncaught e) = 1"

text \<open>
  A service is the object a factory returns; its \<^verbatim>\<open>run\<close> either returns (\<open>None\<close>) or
  raises (\<open>Some e\<close>). The command modules that define the services are not part of the
  file; they are values of these types.
\<close>

datatype 'e service = Service (run: "'e option")

text \<open>
  The parsed-arguments record. \<^verbatim>\<open>hasattr(args, "func")\<close> is \<open>func args \<noteq> None\<close>; the
  other attributes are \<open>attrs\<close>. A factory receives the record and the keyword options
  and returns a service or raises.
\<close>

record ('a, 'e) namespace =
  attrs :: 'a
  func :: "('a \<Rightarrow> kwargs \<Rightarrow> 'e + 'e service) option"

text \<open>
  \<^verbatim>\<open>parser.parse_known_args()\<close> either leaves the process itself (it prints and raises
  \<^verbatim>\<open>SystemExit\<close>) or returns the record and the list of tokens it did not recognise.
\<close>

datatype ('a, 'e) parse_result =
    ParserExit "event list" nat
  | Parsed "('a, 'e) namespace" "string list"

record 'e outcome =
  events :: "event list"
  ended :: "'e ending"

fun is_construct :: "event \<Rightarrow> bool" where
  "is_construct (Construct kw) = True"
| "is_construct e = False"

text \<open>
  \<^verbatim>\<open>
  def main():
      parser = ArgumentParser(...)
      commands_parser = parser.add_subparsers(...)
      set_verbosity_info()
      EnvironmentCommand.register_subcommand(commands_parser)
      TestCommand.register_subcommand(commands_parser)
      DeleteFromHubCommand.register_subcommand(commands_parser)
      args, unknown_args = parser.parse_known_args()
      if not hasattr(args, "func"):
          parser.print_help()
          exit(1)
      kwargs = parse_unknown_args(unknown_args)
      service = args.func(args, **kwargs)
      service.run()
  \<close>
  The parser that the first lines build is the parameter \<open>parser\<close>, applied to the
  process's argument tokens. There is no \<^verbatim>\<open>try\<close> in the function.
\<close>

definition main :: "(string list \<Rightarrow> ('a, 'e) parse_result) \<Rightarrow> string list \<Rightarrow> 'e outcome" where
  "main parser argv =
     (case parser argv of
        ParserExit printed code \<Rightarrow>
          \<lparr>events = SetVerbosityInfo # printed, ended = SystemExit code\<rparr>
      | Parsed args unknown_args \<Rightarrow>
          (case func args of
             None \<Rightarrow>
               \<lparr>events = [SetVerbosityInfo, PrintHelp Stdout], ended = SystemExit 1\<rparr>
           | Some factory \<Rightarrow>
               (let kwargs = parse_unknown_args unknown_args in
                case factory (attrs args) kwargs of
                  Inl e \<Rightarrow>
                    \<lparr>events = [SetVerbosityInfo, Construct kwargs], ended = Uncaught e\<rparr>
                | Inr service \<Rightarrow>
                    (case run service of
                       Some e \<Rightarrow>
                         \<lparr>events = [SetVerbosityInfo, Construct kwargs, Run],
                          ended = Uncaught e\<rparr>
                     | None \<Rightarrow>
                         \<lparr>events = [SetVerbosityInfo, Construct kwargs, Run],
                          ended = Returned\<rparr>))))"

subsection \<open>The argument parser that main builds\<close>

text \<open>
  The parser of \<^verbatim>\<open>main\<close> is an \<^verbatim>\<open>argparse.ArgumentParser\<close> whose only positional
  argument is the subparsers action; the subcommands are registered by modules that are
  not part of the file, so the table from command name to subparser is the parameter
  \<open>commands\<close>. A subparser parses the tokens after the command name and, through
  \<^verbatim>\<open>set_defaults\<close>, attaches the factory.

  The standard library (\<^verbatim>\<open>argparse\<close>: \<^verbatim>\<open>_parse_optional\<close>, \<^verbatim>\<open>_get_values\<close> with
  \<^verbatim>\<open>_check_value\<close>, \<^verbatim>\<open>error\<close>) decides the first token as follows. Without tokens the
  subparsers action, which is optional, is not run and the record stays empty. A first
  token that is empty or does not start with \<^verbatim>\<open>-\<close> is positional: the subparsers action
  takes it and every token after it, checks it against the registered names, and on a
  miss reports \<^verbatim>\<open>invalid choice\<close> through \<^verbatim>\<open>parser.error\<close>, which prints usage and
  message to standard error and exits with code 2; on a hit the result is the
  subparser's. A first token that starts with \<^verbatim>\<open>-\<close> is left to the parameter
  \<open>dashed\<close>, for which \<open>leading_options\<close> below gives the library's behaviour.
\<close>

definition parse_known_args ::
  "(string \<rightharpoonup> (string list \<Rightarrow> ('a, 'e) parse_result)) \<Rightarrow>
   (string list \<Rightarrow> ('a, 'e) parse_result) \<Rightarrow> 'a \<Rightarrow> string list \<Rightarrow> ('a, 'e) parse_result" where
  "parse_known_args commands dashed no_attrs argv =
     (case argv of
        [] \<Rightarrow> Parsed \<lparr>attrs = no_attrs, func = None\<rparr> []
      | tok # rest \<Rightarrow>
          if tok \<noteq> [] \<and> hd tok = CHR ''-'' then dashed argv
          else (case commands tok of
                  None \<Rightarrow> ParserExit [PrintUsageError Stderr] 2
                | Some subparser \<Rightarrow> subparser rest))"

subsection \<open>The rest of the argument parser\<close>

text \<open>
  What the standard library does with a token list whose first token begins with a dash,
  and what a subparser does with the tokens after the command name, follows
  \<^verbatim>\<open>ArgumentParser._parse_known_args\<close>. The tokens are strings of ASCII characters.

  A token is first classified (\<^verbatim>\<open>_parse_optional\<close>, \<^verbatim>\<open>_get_option_tuples\<close>). The only
  options of the parsers considered here are \<^verbatim>\<open>-h\<close> and \<^verbatim>\<open>--help\<close>, which take no
  argument. A token is positional when it is empty, does not begin with a dash, is the
  single dash, or is no form of the help option and looks like a negative number or
  contains a space; it asks for help when it is one of the two option strings, when it
  is \<^verbatim>\<open>-h\<close> with further flag characters joined to it (see \<open>club\<close>), or, where
  abbreviations are allowed, when it is a prefix of \<^verbatim>\<open>--help\<close> of at least two dashes;
  it is a usage error when it gives the help option an argument with \<^verbatim>\<open>=\<close>; every
  other token is an unknown option. The token \<^verbatim>\<open>--\<close> is treated apart by the scanning
  functions.
\<close>

datatype token_class = Positional | Help | Usage_error | Unknown_option

definition is_digit :: "char \<Rightarrow> bool" where
  "is_digit c = (c \<in> set ''0123456789'')"

text \<open>
  The pattern \<^verbatim>\<open>^-\d+$|^-\d*\.\d+$\<close>, where \<^verbatim>\<open>$\<close> also matches before a final
  newline.
\<close>

definition negative_number :: "string \<Rightarrow> bool" where
  "negative_number tok =
     (case tok of
        [] \<Rightarrow> False
      | c # s \<Rightarrow>
          c = CHR ''-'' \<and>
          (let s' = (if s \<noteq> [] \<and> last s = CHR 0x0A then butlast s else s);
               r = dropWhile is_digit s'
           in (s' \<noteq> [] \<and> r = []) \<or>
              (case r of
                 [] \<Rightarrow> False
               | d # ds \<Rightarrow> d = CHR ''.'' \<and> ds \<noteq> [] \<and> list_all is_digit ds)))"

text \<open>
  The characters after \<^verbatim>\<open>-h\<close> in one token are read as further single-dash flags: a
  dash or an equals sign after the last \<^verbatim>\<open>h\<close> is an error, any other character ends
  the run and the help action is taken.
\<close>

fun club :: "string \<Rightarrow> token_class" where
  "club [] = Help"
| "club (c # e) =
     (if c = CHR ''-'' then Usage_error
      else if c = CHR ''h'' then
        (case e of
           [] \<Rightarrow> Help
         | d # _ \<Rightarrow> if d = CHR ''='' then Usage_error else club e)
      else Help)"

definition before_equals :: "string \<Rightarrow> string" where
  "before_equals tok = takeWhile (\<lambda>c. c \<noteq> CHR ''='') tok"

definition classify :: "bool \<Rightarrow> string \<Rightarrow> token_class" where
  "classify allow_abbrev tok =
     (if tok = [] \<or> hd tok \<noteq> CHR ''-'' then Positional
      else if tok = ''-h'' \<or> tok = ''--help'' then Help
      else if length tok = 1 then Positional
      else if CHR ''='' \<in> set tok \<and> (before_equals tok = ''-h'' \<or> before_equals tok = ''--help'')
        then Usage_error
      else if tok ! 1 = CHR ''-'' \<and> allow_abbrev \<and>
              take (length (before_equals tok)) ''--help'' = before_equals tok
        then (if CHR ''='' \<in> set tok then Usage_error else Help)
      else if tok ! 1 \<noteq> CHR ''-'' \<and> take 2 tok = ''-h'' then club (drop 2 tok)
      else if negative_number tok then Positional
      else if CHR '' '' \<in> set tok then Positional
      else Unknown_option)"

text \<open>
  The subparsers action receives the command name and the tokens after it; the tokens a
  subparser leaves unrecognised follow those the main parser has set aside.
\<close>

definition dispatch ::
  "(string \<rightharpoonup> (string list \<Rightarrow> ('a, 'e) parse_result)) \<Rightarrow> string list \<Rightarrow> string \<Rightarrow>
   string list \<Rightarrow> ('a, 'e) parse_result" where
  "dispatch commands extras name rest =
     (case commands name of
        None \<Rightarrow> ParserExit [PrintUsageError Stderr] 2
      | Some subparser \<Rightarrow>
          (case subparser rest of
             ParserExit printed code \<Rightarrow> ParserExit printed code
           | Parsed args unknown_args \<Rightarrow> Parsed args (extras @ unknown_args)))"

text \<open>
  The main parser (abbreviations are switched off) scans from the left: an unknown option
  is set aside, a help flag prints the help text and exits with code 0, the first
  positional token goes with everything after it to the subparsers action. After
  \<^verbatim>\<open>--\<close> every token is positional; a \<^verbatim>\<open>--\<close> with nothing after it is left
  unrecognised.
\<close>

fun leading_options ::
  "(string \<rightharpoonup> (string list \<Rightarrow> ('a, 'e) parse_result)) \<Rightarrow> 'a \<Rightarrow> string list \<Rightarrow>
   string list \<Rightarrow> ('a, 'e) parse_result" where
  "leading_options commands no_attrs extras [] = Parsed \<lparr>attrs = no_attrs, func = None\<rparr> extras"
| "leading_options commands no_attrs extras (tok # rest) =
     (if tok = ''--'' then
        (if rest = [] then Parsed \<lparr>attrs = no_attrs, func = None\<rparr> (extras @ [''--''])
         else dispatch commands extras ''--'' rest)
      else
        (case classify False tok of
           Positional \<Rightarrow> dispatch commands extras tok rest
         | Help \<Rightarrow> ParserExit [PrintHelp Stdout] 0
         | Usage_error \<Rightarrow> ParserExit [PrintUsageError Stderr] 2
         | Unknown_option \<Rightarrow> leading_options commands no_attrs (extras @ [tok]) rest))"

text \<open>
  A subparser as \<^verbatim>\<open>add_parser\<close> creates it (abbreviations allowed, help option added)
  with \<open>m\<close> required positional arguments and the factory attached by
  \<^verbatim>\<open>set_defaults\<close>. The value of a positional argument is a string, or the empty list
  when the argument's only token is a second \<^verbatim>\<open>--\<close>.
\<close>

datatype pyvalue = PyStr string | PyEmptyList

definition finish ::
  "(pyvalue list \<Rightarrow> kwargs \<Rightarrow> 'e + 'e service) \<Rightarrow> nat \<Rightarrow> pyvalue list \<Rightarrow>
   string list \<Rightarrow> (pyvalue list, 'e) parse_result" where
  "finish factory m vals extras =
     (if 0 < m then ParserExit [PrintUsageError Stderr] 2
      else Parsed \<lparr>attrs = vals, func = Some factory\<rparr> extras)"

fun option_ahead :: "string list \<Rightarrow> bool" where
  "option_ahead [] = False"
| "option_ahead (tok # rest) =
     (tok \<noteq> ''--'' \<and> (classify True tok \<noteq> Positional \<or> option_ahead rest))"

fun after_dashdash ::
  "(pyvalue list \<Rightarrow> kwargs \<Rightarrow> 'e + 'e service) \<Rightarrow> nat \<Rightarrow> pyvalue list \<Rightarrow>
   string list \<Rightarrow> string list \<Rightarrow> (pyvalue list, 'e) parse_result" where
  "after_dashdash factory m vals extras [] = finish factory m vals extras"
| "after_dashdash factory 0 vals extras (tok # rest) =
     finish factory 0 vals (extras @ tok # rest)"
| "after_dashdash factory (Suc m) vals extras (tok # rest) =
     after_dashdash factory m
       (vals @ [if tok = ''--'' then PyEmptyList else PyStr tok]) extras rest"

fun final_phase ::
  "(pyvalue list \<Rightarrow> kwargs \<Rightarrow> 'e + 'e service) \<Rightarrow> nat \<Rightarrow> pyvalue list \<Rightarrow>
   string list \<Rightarrow> bool \<Rightarrow> string list \<Rightarrow> (pyvalue list, 'e) parse_result" where
  "final_phase factory m vals extras prev [] = finish factory m vals extras"
| "final_phase factory m vals extras prev (tok # rest) =
     (if tok = ''--'' then
        (if prev then after_dashdash factory m vals extras rest
         else
           (case (m, rest) of
              (Suc k, t # ts) \<Rightarrow> after_dashdash factory k (vals @ [PyStr t]) extras ts
            | _ \<Rightarrow> finish factory m vals (extras @ ''--'' # rest)))
      else
        (case m of
           Suc k \<Rightarrow> final_phase factory k (vals @ [PyStr tok]) extras True rest
         | 0 \<Rightarrow> final_phase factory 0 vals (extras @ [tok]) False rest))"

fun scan_sub ::
  "(pyvalue list \<Rightarrow> kwargs \<Rightarrow> 'e + 'e service) \<Rightarrow> nat \<Rightarrow> pyvalue list \<Rightarrow>
   string list \<Rightarrow> string list \<Rightarrow> (pyvalue list, 'e) parse_result" where
  "scan_sub factory m vals extras [] = finish factory m vals extras"
| "scan_sub factory m vals extras (tok # rest) =
     (if \<not> option_ahead (tok # rest) then
        final_phase factory m vals extras False (tok # rest)
      else
        (case classify True tok of
           Positional \<Rightarrow>
             (case m of
                Suc k \<Rightarrow> scan_sub factory k (vals @ [PyStr tok]) extras rest
              | 0 \<Rightarrow> scan_sub factory 0 vals (extras @ [tok]) rest)
         | Help \<Rightarrow> ParserExit [PrintHelp Stdout] 0
         | Usage_error \<Rightarrow> ParserExit [PrintUsageError Stderr] 2
         | Unknown_option \<Rightarrow> scan_sub factory m vals (extras @ [tok]) rest))"

definition positional_subparser ::
  "nat \<Rightarrow> (pyvalue list \<Rightarrow> kwargs \<Rightarrow> 'e + 'e service) \<Rightarrow> string list \<Rightarrow>
   (pyvalue list, 'e) parse_result" where
  "positional_subparser m factory rest = scan_sub factory m [] [] rest"

subsection \<open>The command modules\<close>

text \<open>
  The modules \<^verbatim>\<open>datasets.commands.env\<close>, \<^verbatim>\<open>.test\<close> and \<^verbatim>\<open>.delete_from_hub\<close> are
  imported by the file and are not part of it. Of what their \<^verbatim>\<open>register_subcommand\<close>
  declares, the table holds the command name, the number of required positional
  arguments (none for \<^verbatim>\<open>env\<close>, the dataset for \<^verbatim>\<open>test\<close>, the dataset id and the
  config name for \<^verbatim>\<open>delete_from_hub\<close>) and the factory. The options that \<^verbatim>\<open>test\<close>
  and \<^verbatim>\<open>delete_from_hub\<close> declare besides are left out: the table describes these two
  commands on token lists that use none of their options. Each factory takes the parsed
  record only, so a call with a keyword option raises \<^verbatim>\<open>TypeError\<close>. What \<^verbatim>\<open>run\<close> does
  lies in the modules; in the table it returns.
\<close>

definition no_keyword_factory :: "pyvalue list \<Rightarrow> kwargs \<Rightarrow> string + string service" where
  "no_keyword_factory a kw = (if kw = [] then Inr (Service None) else Inl ''TypeError'')"

definition three_commands :: "string \<rightharpoonup> (string list \<Rightarrow> (pyvalue list, string) parse_result)" where
  "three_commands =
     [''env'' \<mapsto> positional_subparser 0 no_keyword_factory,
      ''test'' \<mapsto> positional_subparser 1 no_keyword_factory,
      ''delete_from_hub'' \<mapsto> positional_subparser 2 no_keyword_factory]"

text \<open>The parser of \<^verbatim>\<open>main\<close> with these commands.\<close>

abbreviation cli_parser :: "string list \<Rightarrow> (pyvalue list, string) parse_result" where
  "cli_parser \<equiv> parse_known_args three_commands (leading_options three_commands [] []) []"

subsection \<open>Auxiliary functions\<close>

text \<open>
  Two functions that the proofs use to describe the comprehension: the list of pairs of
  neighbouring tokens at positions (0,1), (2,3), ..., and the stores of the comprehension
  started from an arbitrary dictionary.
\<close>

fun adjacent_pairs :: "'a list \<Rightarrow> ('a \<times> 'a) list" where
  "adjacent_pairs (x # y # xs) = (x, y) # adjacent_pairs xs"
| "adjacent_pairs xs = []"

definition store_all :: "kwargs \<Rightarrow> (string \<times> string) list \<Rightarrow> kwargs" where
  "store_all d ps = foldl (\<lambda>d (key, value). dict_setitem d (lstrip ''-'' key) value) d ps"

subsection \<open>Example collaborators\<close>

text \<open>
  Concrete values used to run the router on concrete inputs: a factory whose service
  runs without error, one that raises, one whose service raises in \<^verbatim>\<open>run\<close>; a parser
  that returns a fixed record and a fixed list of unrecognised tokens.
\<close>

definition ok_factory :: "unit \<Rightarrow> kwargs \<Rightarrow> string + string service" where
  "ok_factory a kw = Inr (Service None)"

definition failing_factory :: "unit \<Rightarrow> kwargs \<Rightarrow> string + string service" where
  "failing_factory a kw = Inl ''TypeError''"

definition failing_run_factory :: "unit \<Rightarrow> kwargs \<Rightarrow> string + string service" where
  "failing_run_factory a kw = Inr (Service (Some ''RuntimeError''))"

definition returning :: "('a, 'e) namespace \<Rightarrow> string list \<Rightarrow> string list \<Rightarrow> ('a, 'e) parse_result" where
  "returning args unknown_args argv = Parsed args unknown_args"

section \<open>Properties of the folding\<close>

subsection \<open>Slices and adjacent pairs\<close>

lemma zip_slices: "zip (every_other xs) (every_other (drop 1 xs)) = adjacent_pairs xs"
proof (induction xs rule: adjacent_pairs.induct)
  case (1 x y xs)
  then show ?case by (cases xs) simp_all
qed simp_all

lemma length_adjacent_pairs: "length (adjacent_pairs xs) = length xs div 2"
  by (induction xs rule: adjacent_pairs.induct) simp_all

lemma adjacent_pairs_nth:
  "i < length xs div 2 \<Longrightarrow> adjacent_pairs xs ! i = (xs ! (2 * i), xs ! (2 * i + 1))"
proof (induction xs arbitrary: i rule: adjacent_pairs.induct)
  case (1 x y xs)
  then show ?case by (cases i) simp_all
qed simp_all

lemma adjacent_pairs_eq_map:
  "adjacent_pairs xs = map (\<lambda>i. (xs ! (2 * i), xs ! (2 * i + 1))) [0..<length xs div 2]"
  by (rule nth_equalityI) (simp_all add: length_adjacent_pairs adjacent_pairs_nth)

lemma adjacent_pairs_snoc:
  "even (length xs) \<Longrightarrow> adjacent_pairs (xs @ [t]) = adjacent_pairs xs"
  by (induction xs rule: adjacent_pairs.induct) simp_all

lemma adjacent_pairs_butlast:
  assumes "odd (length xs)"
  shows "adjacent_pairs (butlast xs) = adjacent_pairs xs"
proof -
  from assms have ne: "xs \<noteq> []" by auto
  from assms ne have "even (length (butlast xs))" by simp
  then have "adjacent_pairs (butlast xs @ [last xs]) = adjacent_pairs (butlast xs)"
    by (rule adjacent_pairs_snoc)
  with ne show ?thesis by simp
qed

lemma map_fst_adjacent_pairs:
  "even (length xs) \<Longrightarrow> map fst (adjacent_pairs xs) = every_other xs"
  by (induction xs rule: adjacent_pairs.induct) simp_all

subsection \<open>Dictionary stores\<close>

lemma map_of_dict_setitem: "map_of (dict_setitem d k v) = (map_of d)(k \<mapsto> v)"
  by (induction d k v rule: dict_setitem.induct) (auto simp: fun_eq_iff)

lemma keys_dict_setitem: "fst ` set (dict_setitem d k v) = insert k (fst ` set d)"
  by (induction d k v rule: dict_setitem.induct) auto

lemma distinct_dict_setitem:
  "distinct (map fst d) \<Longrightarrow> distinct (map fst (dict_setitem d k v))"
  by (induction d k v rule: dict_setitem.induct) (auto simp: keys_dict_setitem)

lemma dict_setitem_fresh: "k \<notin> fst ` set d \<Longrightarrow> dict_setitem d k v = d @ [(k, v)]"
  by (induction d k v rule: dict_setitem.induct) auto

lemma length_dict_setitem_le: "length (dict_setitem d k v) \<le> Suc (length d)"
  by (induction d k v rule: dict_setitem.induct) auto


lemma map_of_rev_last:
  assumes "i < length ps" and "ps ! i = (k, v)"
    and "\<forall>j. i < j \<and> j < length ps \<longrightarrow> fst (ps ! j) \<noteq> k"
  shows "map_of (rev ps) k = Some v"
proof -
  have split: "ps = take i ps @ (k, v) # drop (Suc i) ps"
    using assms(1,2) by (metis id_take_nth_drop)
  have "k \<notin> fst ` set (drop (Suc i) ps)"
  proof
    assume "k \<in> fst ` set (drop (Suc i) ps)"
    then obtain q where q: "q \<in> set (drop (Suc i) ps)" and k: "fst q = k" by auto
    from q obtain m where m: "m < length (drop (Suc i) ps)" and qm: "drop (Suc i) ps ! m = q"
      by (auto simp: in_set_conv_nth)
    from m have "Suc i + m < length ps" by simp
    moreover from m qm have "ps ! (Suc i + m) = q" by simp
    ultimately show False using assms(3) [rule_format, of "Suc i + m"] k by simp
  qed
  then have none: "map_of (rev (drop (Suc i) ps)) k = None"
    by (simp add: map_of_eq_None_iff)
  have "rev ps = rev (drop (Suc i) ps) @ (k, v) # rev (take i ps)"
    by (subst split) simp
  then have "map_of (rev ps) k = map_of (rev (drop (Suc i) ps) @ (k, v) # rev (take i ps)) k"
    by simp
  also have "\<dots> = Some v"
    using none by (simp add: map_add_def)
  finally show ?thesis .
qed

subsection \<open>The comprehension as a fold\<close>

lemma store_all_simps [simp]:
  "store_all d [] = d"
  "store_all d ((key, value) # ps) = store_all (dict_setitem d (lstrip ''-'' key) value) ps"
  by (simp_all add: store_all_def)

lemma parse_unknown_args_store_all:
  "parse_unknown_args xs = store_all [] (adjacent_pairs xs)"
  unfolding parse_unknown_args_def store_all_def zip_slices ..

lemma distinct_store_all:
  "distinct (map fst d) \<Longrightarrow> distinct (map fst (store_all d ps))"
  by (induction ps arbitrary: d) (auto simp: distinct_dict_setitem)

lemma length_store_all_le: "length (store_all d ps) \<le> length d + length ps"
proof (induction ps arbitrary: d)
  case Nil
  then show ?case by simp
next
  case (Cons p ps)
  obtain key val where p: "p = (key, val)" by (cases p)
  have "length (store_all (dict_setitem d (lstrip ''-'' key) val) ps)
          \<le> length (dict_setitem d (lstrip ''-'' key) val) + length ps"
    by (rule Cons.IH)
  also have "\<dots> \<le> Suc (length d) + length ps"
    using length_dict_setitem_le [of d "lstrip ''-'' key" val] by simp
  finally show ?case by (simp add: p)
qed

lemma map_of_store_all:
  "map_of (store_all d ps) =
     map_of (rev (map (\<lambda>(key, value). (lstrip ''-'' key, value)) ps) @ d)"
  by (induction ps arbitrary: d) (auto simp: map_of_dict_setitem fun_eq_iff map_add_def split: option.splits)

lemma store_all_fresh:
  "distinct (map (\<lambda>p. lstrip ''-'' (fst p)) ps) \<Longrightarrow>
   (\<forall>p \<in> set ps. lstrip ''-'' (fst p) \<notin> fst ` set d) \<Longrightarrow>
   store_all d ps = d @ map (\<lambda>(key, value). (lstrip ''-'' key, value)) ps"
proof (induction ps arbitrary: d)
  case Nil
  then show ?case by simp
next
  case (Cons p ps)
  obtain key val where p: "p = (key, val)" by (cases p)
  let ?k = "lstrip ''-'' key"
  from Cons.prems p have fresh: "?k \<notin> fst ` set d" by simp
  then have step: "dict_setitem d ?k val = d @ [(?k, val)]"
    by (rule dict_setitem_fresh)
  have "store_all (d @ [(?k, val)]) ps =
          (d @ [(?k, val)]) @ map (\<lambda>(key, value). (lstrip ''-'' key, value)) ps"
  proof (rule Cons.IH)
    show "distinct (map (\<lambda>p. lstrip ''-'' (fst p)) ps)"
      using Cons.prems(1) by simp
    show "\<forall>q \<in> set ps. lstrip ''-'' (fst q) \<notin> fst ` set (d @ [(?k, val)])"
    proof
      fix q assume q: "q \<in> set ps"
      with Cons.prems(2) have "lstrip ''-'' (fst q) \<notin> fst ` set d" by simp
      moreover from Cons.prems(1) q p have "lstrip ''-'' (fst q) \<noteq> ?k" by force
      ultimately show "lstrip ''-'' (fst q) \<notin> fst ` set (d @ [(?k, val)])" by simp
    qed
  qed
  then show ?case by (simp add: p step)
qed

lemma strip_pairs_eq_map:
  "map (\<lambda>(key, value). (lstrip ''-'' key, value)) (adjacent_pairs xs) =
     map (\<lambda>i. (lstrip ''-'' (xs ! (2 * i)), xs ! (2 * i + 1))) [0..<length xs div 2]"
  by (subst adjacent_pairs_eq_map) simp


lemma keys_store_all:
  "fst ` set (store_all d ps) = fst ` set d \<union> (\<lambda>p. lstrip ''-'' (fst p)) ` set ps"
proof (induction ps arbitrary: d)
  case Nil
  then show ?case by simp
next
  case (Cons p ps)
  obtain key val where p: "p = (key, val)" by (cases p)
  have "fst ` set (store_all (dict_setitem d (lstrip ''-'' key) val) ps) =
          fst ` set (dict_setitem d (lstrip ''-'' key) val)
            \<union> (\<lambda>p. lstrip ''-'' (fst p)) ` set ps"
    by (rule Cons.IH)
  then show ?case
    by (simp add: p keys_dict_setitem)
qed

lemma parse_unknown_args_Nil: "parse_unknown_args [] = []"
  by (simp add: parse_unknown_args_def)

lemma parse_unknown_args_butlast:
  "odd (length xs) \<Longrightarrow> parse_unknown_args (butlast xs) = parse_unknown_args xs"
  by (simp add: parse_unknown_args_store_all adjacent_pairs_butlast)

lemma keys_parse_unknown_args:
  "i < length xs div 2 \<Longrightarrow> lstrip ''-'' (xs ! (2 * i)) \<in> fst ` set (parse_unknown_args xs)"
proof -
  assume i: "i < length xs div 2"
  then have "adjacent_pairs xs ! i \<in> set (adjacent_pairs xs)"
    by (simp add: length_adjacent_pairs)
  with i have "(xs ! (2 * i), xs ! (2 * i + 1)) \<in> set (adjacent_pairs xs)"
    by (simp add: adjacent_pairs_nth)
  then have "lstrip ''-'' (xs ! (2 * i)) \<in> (\<lambda>p. lstrip ''-'' (fst p)) ` set (adjacent_pairs xs)"
    by force
  then show ?thesis
    by (simp add: parse_unknown_args_store_all keys_store_all)
qed


lemma map_of_parse_unknown_args_last:
  assumes i: "i < length xs div 2"
    and later: "\<forall>j. i < j \<and> j < length xs div 2 \<longrightarrow>
                  lstrip ''-'' (xs ! (2 * j)) \<noteq> lstrip ''-'' (xs ! (2 * i))"
  shows "map_of (parse_unknown_args xs) (lstrip ''-'' (xs ! (2 * i))) = Some (xs ! (2 * i + 1))"
proof -
  let ?ps = "map (\<lambda>i. (lstrip ''-'' (xs ! (2 * i)), xs ! (2 * i + 1))) [0..<length xs div 2]"
  have "map_of (rev ?ps) (lstrip ''-'' (xs ! (2 * i))) = Some (xs ! (2 * i + 1))"
  proof (rule map_of_rev_last [where i = i])
    show "i < length ?ps" using i by simp
    show "?ps ! i = (lstrip ''-'' (xs ! (2 * i)), xs ! (2 * i + 1))" using i by simp
    show "\<forall>j. i < j \<and> j < length ?ps \<longrightarrow> fst (?ps ! j) \<noteq> lstrip ''-'' (xs ! (2 * i))"
      using later by simp
  qed
  moreover have "map_of (parse_unknown_args xs) = map_of (rev ?ps)"
    by (simp only: parse_unknown_args_store_all map_of_store_all strip_pairs_eq_map append_Nil2)
  ultimately show ?thesis by simp
qed

subsection \<open>Even-length token lists\<close>

text \<open>
  Claim C1 as stated: for every token list of even length \<open>n\<close> the mapping has size
  \<open>n / 2\<close>. It fails when two keys coincide after stripping: the four tokens
  \<^verbatim>\<open>--a 1 -a 2\<close> give a mapping with the single entry \<^verbatim>\<open>a: 2\<close>.
\<close>

theorem parse_unknown_args_size_counterexample:
  "even (length [''--a'', ''1'', ''-a'', ''2'']) \<and>
   length (parse_unknown_args [''--a'', ''1'', ''-a'', ''2''])
     \<noteq> length [''--a'', ''1'', ''-a'', ''2''] div 2"
  by (simp add: parse_unknown_args_def lstrip_def)

text \<open>
  Claim C1, amended: for every token list of even length \<open>n\<close> whose even-indexed tokens
  are pairwise distinct after their leading dashes are stripped, \<^verbatim>\<open>parse_unknown_args\<close>
  returns the mapping of size \<open>n / 2\<close> whose entries are, in the original order, the
  stripped token at position \<open>2 i\<close> with the token at position \<open>2 i + 1\<close> as its value.
\<close>

theorem parse_unknown_args_distinct_keys:
  assumes "even (length xs)"
    and "distinct (map (lstrip ''-'') (every_other xs))"
  shows "parse_unknown_args xs =
           map (\<lambda>i. (lstrip ''-'' (xs ! (2 * i)), xs ! (2 * i + 1))) [0..<length xs div 2]
         \<and> length (parse_unknown_args xs) = length xs div 2"
proof -
  have "map (\<lambda>p. lstrip ''-'' (fst p)) (adjacent_pairs xs)
          = map (lstrip ''-'') (map fst (adjacent_pairs xs))"
    by simp
  with assms have "distinct (map (\<lambda>p. lstrip ''-'' (fst p)) (adjacent_pairs xs))"
    by (simp only: map_fst_adjacent_pairs)
  then have "store_all [] (adjacent_pairs xs) =
               [] @ map (\<lambda>(key, value). (lstrip ''-'' key, value)) (adjacent_pairs xs)"
    by (rule store_all_fresh) simp
  then have eq: "parse_unknown_args xs =
      map (\<lambda>i. (lstrip ''-'' (xs ! (2 * i)), xs ! (2 * i + 1))) [0..<length xs div 2]"
    by (simp only: parse_unknown_args_store_all strip_pairs_eq_map append_Nil)
  then show ?thesis by simp
qed

theorem parse_unknown_args_distinct_keys_witness:
  "even (length [''--a'', ''1'', ''-b'', ''2'']) \<and>
   distinct (map (lstrip ''-'') (every_other [''--a'', ''1'', ''-b'', ''2''])) \<and>
   parse_unknown_args [''--a'', ''1'', ''-b'', ''2''] = [(''a'', ''1''), (''b'', ''2'')] \<and>
   length (parse_unknown_args [''--a'', ''1'', ''-b'', ''2'']) = 2"
proof -
  have e: "even (length [''--a'', ''1'', ''-b'', ''2''])" by simp
  have d: "distinct (map (lstrip ''-'') (every_other [''--a'', ''1'', ''-b'', ''2'']))"
    by (simp add: lstrip_def)
  have u: "[0..<length [''--a'', ''1'', ''-b'', ''2''] div 2] = [0, 1]"
    by (simp add: upt_rec)
  from parse_unknown_args_distinct_keys [OF e d] e d show ?thesis
    by (simp add: u lstrip_def)
qed

subsection \<open>Odd-length token lists\<close>

text \<open>
  Claim C8: \<^verbatim>\<open>parse_unknown_args\<close> is defined on every token list (the slices, \<^verbatim>\<open>zip\<close>,
  \<^verbatim>\<open>lstrip\<close> on a string and a store under a string key have no failing case, so the
  function has no error result). The mapping never has more than \<open>n div 2\<close> entries,
  and for a list of odd length \<open>n\<close> the last token is dropped: the result is the one
  for the first \<open>n - 1\<close> tokens.
\<close>

theorem parse_unknown_args_odd:
  "length (parse_unknown_args xs) \<le> length xs div 2 \<and>
   (odd (length xs) \<longrightarrow> parse_unknown_args xs = parse_unknown_args (butlast xs))"
proof
  show "length (parse_unknown_args xs) \<le> length xs div 2"
    using length_store_all_le [of "[]" "adjacent_pairs xs"]
    by (simp add: parse_unknown_args_store_all length_adjacent_pairs)
  show "odd (length xs) \<longrightarrow> parse_unknown_args xs = parse_unknown_args (butlast xs)"
    by (simp add: parse_unknown_args_store_all adjacent_pairs_butlast)
qed

theorem parse_unknown_args_odd_witness:
  "odd (length [''--a'', ''1'', ''--b'']) \<and>
   parse_unknown_args [''--a'', ''1'', ''--b''] = [(''a'', ''1'')] \<and>
   parse_unknown_args (butlast [''--a'', ''1'', ''--b'']) = [(''a'', ''1'')]"
proof -
  have o: "odd (length [''--a'', ''1'', ''--b''])" by simp
  have b: "parse_unknown_args (butlast [''--a'', ''1'', ''--b'']) = [(''a'', ''1'')]"
    by (simp add: parse_unknown_args_def lstrip_def)
  from parse_unknown_args_odd [of "[''--a'', ''1'', ''--b'']"] o
  have "parse_unknown_args [''--a'', ''1'', ''--b''] =
          parse_unknown_args (butlast [''--a'', ''1'', ''--b''])"
    by blast
  with o b show ?thesis by simp
qed

subsection \<open>Keys that coincide after stripping\<close>

text \<open>
  Claim C9: the mapping holds one entry per key (its keys are pairwise distinct). The
  value found under the stripped token of pair \<open>i\<close> is the value token of that pair
  whenever no later pair strips to the same key, so of several pairs with one key the
  last one in positional order decides. For some even-length inputs the mapping is
  therefore smaller than half the token count: \<^verbatim>\<open>--a 1 -a 2\<close> gives the single entry
  \<^verbatim>\<open>a: 2\<close>.
\<close>

theorem parse_unknown_args_last_wins:
  "distinct (map fst (parse_unknown_args xs)) \<and>
   (\<forall>i < length xs div 2.
      (\<forall>j. i < j \<and> j < length xs div 2 \<longrightarrow>
           lstrip ''-'' (xs ! (2 * j)) \<noteq> lstrip ''-'' (xs ! (2 * i))) \<longrightarrow>
      map_of (parse_unknown_args xs) (lstrip ''-'' (xs ! (2 * i))) = Some (xs ! (2 * i + 1))) \<and>
   (even (length [''--a'', ''1'', ''-a'', ''2'']) \<and>
    parse_unknown_args [''--a'', ''1'', ''-a'', ''2''] = [(''a'', ''2'')] \<and>
    length (parse_unknown_args [''--a'', ''1'', ''-a'', ''2''])
      < length [''--a'', ''1'', ''-a'', ''2''] div 2)"
proof (intro conjI allI impI)
  show "distinct (map fst (parse_unknown_args xs))"
    by (simp add: parse_unknown_args_store_all distinct_store_all)
next
  fix i
  assume "i < length xs div 2"
    and "\<forall>j. i < j \<and> j < length xs div 2 \<longrightarrow>
           lstrip ''-'' (xs ! (2 * j)) \<noteq> lstrip ''-'' (xs ! (2 * i))"
  then show "map_of (parse_unknown_args xs) (lstrip ''-'' (xs ! (2 * i))) = Some (xs ! (2 * i + 1))"
    by (rule map_of_parse_unknown_args_last)
next
  show "even (length [''--a'', ''1'', ''-a'', ''2''])" by simp
  show "parse_unknown_args [''--a'', ''1'', ''-a'', ''2''] = [(''a'', ''2'')]"
    by (simp add: parse_unknown_args_def lstrip_def)
  show "length (parse_unknown_args [''--a'', ''1'', ''-a'', ''2''])
      < length [''--a'', ''1'', ''-a'', ''2''] div 2"
    by (simp add: parse_unknown_args_def lstrip_def)
qed

theorem parse_unknown_args_last_wins_witness:
  "(1::nat) < length [''--a'', ''1'', ''-a'', ''2''] div 2 \<and>
   lstrip ''-'' ([''--a'', ''1'', ''-a'', ''2''] ! (2 * 1)) = ''a'' \<and>
   map_of (parse_unknown_args [''--a'', ''1'', ''-a'', ''2'']) ''a'' = Some ''2''"
proof -
  have i: "(1::nat) < length [''--a'', ''1'', ''-a'', ''2''] div 2" by simp
  have later: "\<forall>j. (1::nat) < j \<and> j < length [''--a'', ''1'', ''-a'', ''2''] div 2 \<longrightarrow>
      lstrip ''-'' ([''--a'', ''1'', ''-a'', ''2''] ! (2 * j))
        \<noteq> lstrip ''-'' ([''--a'', ''1'', ''-a'', ''2''] ! (2 * 1))"
  proof (intro allI impI)
    fix j :: nat
    assume "1 < j \<and> j < length [''--a'', ''1'', ''-a'', ''2''] div 2"
    then have False by auto
    then show "lstrip ''-'' ([''--a'', ''1'', ''-a'', ''2''] ! (2 * j))
        \<noteq> lstrip ''-'' ([''--a'', ''1'', ''-a'', ''2''] ! (2 * 1))" ..
  qed
  from parse_unknown_args_last_wins [of "[''--a'', ''1'', ''-a'', ''2'']"] i later
  have "map_of (parse_unknown_args [''--a'', ''1'', ''-a'', ''2''])
          (lstrip ''-'' ([''--a'', ''1'', ''-a'', ''2''] ! (2 * 1)))
        = Some ([''--a'', ''1'', ''-a'', ''2''] ! (2 * 1 + 1))"
    by blast
  then have "map_of (parse_unknown_args [''--a'', ''1'', ''-a'', ''2'']) ''a'' = Some ''2''"
    by (simp add: lstrip_def)
  moreover have "lstrip ''-'' ([''--a'', ''1'', ''-a'', ''2''] ! (2 * 1)) = ''a''"
    by (simp add: lstrip_def)
  ultimately show ?thesis using i by blast
qed

subsection \<open>Values are stored as they are\<close>



section \<open>Properties of the router\<close>

lemma main_Parsed:
  "parser argv = Parsed args unknown_args \<Longrightarrow> func args = Some factory \<Longrightarrow>
   main parser argv =
     (case factory (attrs args) (parse_unknown_args unknown_args) of
        Inl e \<Rightarrow>
          \<lparr>events = [SetVerbosityInfo, Construct (parse_unknown_args unknown_args)],
           ended = Uncaught e\<rparr>
      | Inr service \<Rightarrow>
          \<lparr>events = [SetVerbosityInfo, Construct (parse_unknown_args unknown_args), Run],
           ended = (case run service of Some e \<Rightarrow> Uncaught e | None \<Rightarrow> Returned)\<rparr>)"
  by (simp add: main_def Let_def split: sum.splits option.splits)

lemma main_no_func:
  "parser argv = Parsed args unknown_args \<Longrightarrow> func args = None \<Longrightarrow>
   main parser argv = \<lparr>events = [SetVerbosityInfo, PrintHelp Stdout], ended = SystemExit 1\<rparr>"
  by (simp add: main_def)


lemma dispatch_no_extras:
  "dispatch commands [] name rest =
     (case commands name of
        None \<Rightarrow> ParserExit [PrintUsageError Stderr] 2
      | Some subparser \<Rightarrow> subparser rest)"
  by (simp add: dispatch_def split: option.splits parse_result.splits)

lemma classify_no_dash: "tok = [] \<or> hd tok \<noteq> CHR ''-'' \<Longrightarrow> classify b tok = Positional"
  by (simp add: classify_def)

lemma parse_known_args_leading_options:
  "parse_known_args commands (leading_options commands no_attrs []) no_attrs argv =
     leading_options commands no_attrs [] argv"
proof (cases argv)
  case Nil
  then show ?thesis by (simp add: parse_known_args_def)
next
  case (Cons tok rest)
  show ?thesis
  proof (cases "tok \<noteq> [] \<and> hd tok = CHR ''-''")
    case True
    with Cons show ?thesis by (simp add: parse_known_args_def)
  next
    case False
    then have c: "classify False tok = Positional" by (auto simp: classify_no_dash)
    from False have "tok \<noteq> ''--''" by auto
    with Cons False c show ?thesis
      by (simp add: parse_known_args_def dispatch_no_extras)
  qed
qed

lemma cli_parser_leading_option:
  "cli_parser [''--x''] = Parsed \<lparr>attrs = [], func = None\<rparr> [''--x''] \<and>
   cli_parser [''--x'', ''env''] = Parsed \<lparr>attrs = [], func = Some no_keyword_factory\<rparr> [''--x''] \<and>
   cli_parser [''-h''] = ParserExit [PrintHelp Stdout] 0 \<and>
   cli_parser [''env'', ''--help''] = ParserExit [PrintHelp Stdout] 0 \<and>
   cli_parser [''delete_from_hub'', ''a''] = ParserExit [PrintUsageError Stderr] 2"
  by (simp add: parse_known_args_def three_commands_def positional_subparser_def finish_def
      dispatch_def classify_def before_equals_def negative_number_def is_digit_def)

subsection \<open>No subcommand\<close>

text \<open>
  Claim C2: whenever the parser returns a record without the factory field, \<^verbatim>\<open>main\<close>
  prints the help text to standard output and leaves with \<^verbatim>\<open>exit(1)\<close>. The parser
  that \<^verbatim>\<open>main\<close> builds returns such a record when the tool is invoked with no
  arguments, so that invocation prints help, has exit status 1, calls no factory and
  runs no service.
\<close>

theorem main_no_subcommand:
  "(parser argv = Parsed args unknown_args \<and> func args = None \<longrightarrow>
      main parser argv =
        \<lparr>events = [SetVerbosityInfo, PrintHelp Stdout], ended = SystemExit 1\<rparr>) \<and>
   main (parse_known_args commands dashed no_attrs) [] =
     \<lparr>events = [SetVerbosityInfo, PrintHelp Stdout], ended = SystemExit 1\<rparr> \<and>
   exit_status (ended (main (parse_known_args commands dashed no_attrs) [])) = 1 \<and>
   \<not> list_ex is_construct (events (main (parse_known_args commands dashed no_attrs) [])) \<and>
   Run \<notin> set (events (main (parse_known_args commands dashed no_attrs) []))"
proof -
  have "parse_known_args commands dashed no_attrs [] = Parsed \<lparr>attrs = no_attrs, func = None\<rparr> []"
    by (simp add: parse_known_args_def)
  then have "main (parse_known_args commands dashed no_attrs) [] =
     \<lparr>events = [SetVerbosityInfo, PrintHelp Stdout], ended = SystemExit 1\<rparr>"
    by (rule main_no_func) simp
  then show ?thesis by (simp add: main_no_func)
qed

theorem main_no_subcommand_witness:
  "returning \<lparr>attrs = (), func = (None :: (unit \<Rightarrow> kwargs \<Rightarrow> string + string service) option)\<rparr>
     [''--x''] [''--x''] =
     Parsed \<lparr>attrs = (), func = None\<rparr> [''--x''] \<and>
   func \<lparr>attrs = (), func = (None :: (unit \<Rightarrow> kwargs \<Rightarrow> string + string service) option)\<rparr> = None \<and>
   main (returning \<lparr>attrs = (), func = (None :: (unit \<Rightarrow> kwargs \<Rightarrow> string + string service) option)\<rparr>
     [''--x'']) [''--x''] =
     \<lparr>events = [SetVerbosityInfo, PrintHelp Stdout], ended = SystemExit 1\<rparr>"
proof -
  let ?ns = "\<lparr>attrs = (), func = (None :: (unit \<Rightarrow> kwargs \<Rightarrow> string + string service) option)\<rparr>"
  have p: "returning ?ns [''--x''] [''--x''] = Parsed ?ns [''--x'']"
    by (simp add: returning_def)
  have f: "func ?ns = None" by simp
  from main_no_subcommand [of "returning ?ns [''--x'']" "[''--x'']" ?ns "[''--x'']", THEN conjunct1] p f
  show ?thesis by simp
qed

subsection \<open>An unregistered subcommand name\<close>

text \<open>
  Claim C3 as stated: an unregistered subcommand name behaves as no subcommand does (help
  text, exit code 1). With the commands \<^verbatim>\<open>env\<close>, \<^verbatim>\<open>test\<close> and \<^verbatim>\<open>delete_from_hub\<close>
  registered, the token \<^verbatim>\<open>foo\<close> does not behave as the empty argument list does: the
  parser leaves the process before \<^verbatim>\<open>main\<close> looks at the record, the exit status is
  not 1 and the help text is not printed to standard output.
\<close>

theorem main_unregistered_counterexample:
  "three_commands ''foo'' = None \<and>
   main cli_parser [''foo'']
     \<noteq> main cli_parser [] \<and>
   exit_status (ended (main cli_parser [''foo''])) \<noteq> 1 \<and>
   PrintHelp Stdout \<notin> set (events (main cli_parser [''foo'']))"
  by (simp add: main_def parse_known_args_def three_commands_def)

text \<open>
  Claim C3, amended: invoking the tool with a first token that is not a registered
  subcommand name (and does not begin with a dash) is rejected by the argument parser
  itself, which prints usage and an error to standard error and exits with code 2;
  \<^verbatim>\<open>main\<close>'s own help-and-exit-1 branch is not reached, and no service is constructed
  or run.
\<close>

theorem main_unregistered_name:
  assumes "commands tok = None" and "tok = [] \<or> hd tok \<noteq> CHR ''-''"
  shows "main (parse_known_args commands dashed no_attrs) (tok # rest) =
           \<lparr>events = [SetVerbosityInfo, PrintUsageError Stderr], ended = SystemExit 2\<rparr>"
  using assms by (auto simp: main_def parse_known_args_def)

theorem main_unregistered_name_witness:
  "three_commands ''foo'' = None \<and> (''foo'' = [] \<or> hd ''foo'' \<noteq> CHR ''-'') \<and>
   main cli_parser [''foo'', ''--x'', ''1''] =
     \<lparr>events = [SetVerbosityInfo, PrintUsageError Stderr], ended = SystemExit 2\<rparr>"
proof -
  have n: "three_commands ''foo'' = None" by (simp add: three_commands_def)
  have d: "''foo'' = [] \<or> hd ''foo'' \<noteq> CHR ''-''" by simp
  from main_unregistered_name [of three_commands "''foo''" "leading_options three_commands [] []"
      "[]" "[''--x'', ''1'']"] n d
  show ?thesis by simp
qed

subsection \<open>An odd number of unknown tokens in the router\<close>

text \<open>
  Claim C4 as stated: an unknown-token list of odd length makes the invocation fail.
  With the single unknown token \<^verbatim>\<open>--a\<close> and a factory and service that do not raise,
  the invocation constructs the service with no keyword options, runs it and returns.
\<close>

theorem main_odd_unknown_counterexample:
  "odd (length [''--a'']) \<and>
   main (returning \<lparr>attrs = (), func = Some ok_factory\<rparr> [''--a'']) [''env'', ''--a''] =
     \<lparr>events = [SetVerbosityInfo, Construct [], Run], ended = Returned\<rparr>"
  by (simp add: main_def returning_def ok_factory_def parse_unknown_args_def)

text \<open>
  Claim C4, amended: when the unknown-token list has odd length, the input is not
  validated and no failure arises from it: the final token, which has no value after it,
  is dropped, and the invocation proceeds exactly as it does for the list without its
  last token.
\<close>

theorem main_odd_unknown_dropped:
  assumes "parser argv = Parsed args unknown_args" and "odd (length unknown_args)"
  shows "main parser argv = main (returning args (butlast unknown_args)) argv"
proof (cases "func args")
  case None
  with assms(1) show ?thesis
    by (simp add: main_no_func returning_def)
next
  case (Some factory)
  from assms(2) have eq: "parse_unknown_args (butlast unknown_args) = parse_unknown_args unknown_args"
    by (rule parse_unknown_args_butlast)
  from this [symmetric] Some assms(1) show ?thesis
    unfolding main_def returning_def by simp
qed

theorem main_odd_unknown_dropped_witness:
  "returning \<lparr>attrs = (), func = Some ok_factory\<rparr> [''--a'', ''1'', ''--b'']
      [''env'', ''--a'', ''1'', ''--b''] =
     Parsed \<lparr>attrs = (), func = Some ok_factory\<rparr> [''--a'', ''1'', ''--b''] \<and>
   odd (length [''--a'', ''1'', ''--b'']) \<and>
   main (returning \<lparr>attrs = (), func = Some ok_factory\<rparr> [''--a'', ''1'', ''--b''])
      [''env'', ''--a'', ''1'', ''--b''] =
     \<lparr>events = [SetVerbosityInfo, Construct [(''a'', ''1'')], Run], ended = Returned\<rparr>"
proof -
  let ?ns = "\<lparr>attrs = (), func = Some ok_factory\<rparr>"
  have p: "returning ?ns [''--a'', ''1'', ''--b''] [''env'', ''--a'', ''1'', ''--b''] =
             Parsed ?ns [''--a'', ''1'', ''--b'']"
    by (simp add: returning_def)
  have o: "odd (length [''--a'', ''1'', ''--b''])" by simp
  have "main (returning ?ns (butlast [''--a'', ''1'', ''--b''])) [''env'', ''--a'', ''1'', ''--b''] =
          \<lparr>events = [SetVerbosityInfo, Construct [(''a'', ''1'')], Run], ended = Returned\<rparr>"
    by (simp add: main_def returning_def ok_factory_def parse_unknown_args_def lstrip_def)
  with main_odd_unknown_dropped [of "returning ?ns [''--a'', ''1'', ''--b'']"
      "[''env'', ''--a'', ''1'', ''--b'']" ?ns "[''--a'', ''1'', ''--b'']"] p o
  show ?thesis by simp
qed

subsection \<open>A registered subcommand name alone\<close>




subsection \<open>Forwarding unknown options\<close>

text \<open>
  Claim C6 as stated: every \<^verbatim>\<open>--key value\<close> pair that matches no declared flag is
  forwarded, and the tokens \<^verbatim>\<open>["test", "--verbose", "true"]\<close> pass the mapping
  \<^verbatim>\<open>verbose: true\<close> to the factory of \<^verbatim>\<open>test\<close>. For these tokens the subparser of
  \<^verbatim>\<open>test\<close> takes \<^verbatim>\<open>true\<close> as its positional argument, the only unrecognised token is
  \<^verbatim>\<open>--verbose\<close>, and the factory is called with the empty mapping. And of the pairs
  \<^verbatim>\<open>--a 1\<close> and \<^verbatim>\<open>-a 2\<close> after \<^verbatim>\<open>env\<close> only the second is forwarded.
\<close>

theorem main_forwards_kwargs_counterexample:
  "cli_parser [''test'', ''--verbose'', ''true''] =
     Parsed \<lparr>attrs = [PyStr ''true''], func = Some no_keyword_factory\<rparr> [''--verbose''] \<and>
   take 2 (events (main cli_parser [''test'', ''--verbose'', ''true''])) =
     [SetVerbosityInfo, Construct []] \<and>
   Construct [(''verbose'', ''true'')]
     \<notin> set (events (main cli_parser [''test'', ''--verbose'', ''true''])) \<and>
   cli_parser [''env'', ''--a'', ''1'', ''-a'', ''2''] =
     Parsed \<lparr>attrs = [], func = Some no_keyword_factory\<rparr> [''--a'', ''1'', ''-a'', ''2''] \<and>
   take 2 (events (main cli_parser [''env'', ''--a'', ''1'', ''-a'', ''2''])) =
     [SetVerbosityInfo, Construct [(''a'', ''2'')]] \<and>
   (''a'', ''1'') \<notin> set (parse_unknown_args [''--a'', ''1'', ''-a'', ''2''])"
  by (simp add: main_def parse_known_args_def three_commands_def positional_subparser_def
      finish_def classify_def before_equals_def negative_number_def is_digit_def
      no_keyword_factory_def parse_unknown_args_def lstrip_def)

text \<open>
  Claim C6, amended: in the dispatch phase the selected factory is called with the
  parsed record and with exactly the unknown-option mapping that \<^verbatim>\<open>parse_unknown_args\<close>
  builds from the tokens the parser left unrecognised, and its result on that mapping
  decides how the invocation goes on. For every pair of neighbouring unrecognised tokens
  the stripped key is a named option of the call, and its value is the value token of
  that pair unless a later pair strips to the same key. A token that the selected
  subparser takes for itself is not among the unrecognised tokens and is not forwarded.
  The unrecognised tokens \<^verbatim>\<open>--verbose true\<close> (as in \<^verbatim>\<open>["env", "--verbose", "true"]\<close>)
  give the mapping \<^verbatim>\<open>verbose: true\<close>.
\<close>

theorem main_forwards_kwargs:
  assumes "parser argv = Parsed args unknown_args" and "func args = Some factory"
  shows "main parser argv =
           (case factory (attrs args) (parse_unknown_args unknown_args) of
              Inl e \<Rightarrow>
                \<lparr>events = [SetVerbosityInfo, Construct (parse_unknown_args unknown_args)],
                 ended = Uncaught e\<rparr>
            | Inr service \<Rightarrow>
                \<lparr>events = [SetVerbosityInfo, Construct (parse_unknown_args unknown_args), Run],
                 ended = (case run service of Some e \<Rightarrow> Uncaught e | None \<Rightarrow> Returned)\<rparr>)
         \<and> (\<forall>i < length unknown_args div 2.
               lstrip ''-'' (unknown_args ! (2 * i)) \<in> fst ` set (parse_unknown_args unknown_args) \<and>
               ((\<forall>j. i < j \<and> j < length unknown_args div 2 \<longrightarrow>
                    lstrip ''-'' (unknown_args ! (2 * j)) \<noteq> lstrip ''-'' (unknown_args ! (2 * i))) \<longrightarrow>
                map_of (parse_unknown_args unknown_args) (lstrip ''-'' (unknown_args ! (2 * i)))
                  = Some (unknown_args ! (2 * i + 1))))
         \<and> parse_unknown_args [''--verbose'', ''true''] = [(''verbose'', ''true'')]"
proof (intro conjI allI impI)
  show "main parser argv =
           (case factory (attrs args) (parse_unknown_args unknown_args) of
              Inl e \<Rightarrow>
                \<lparr>events = [SetVerbosityInfo, Construct (parse_unknown_args unknown_args)],
                 ended = Uncaught e\<rparr>
            | Inr service \<Rightarrow>
                \<lparr>events = [SetVerbosityInfo, Construct (parse_unknown_args unknown_args), Run],
                 ended = (case run service of Some e \<Rightarrow> Uncaught e | None \<Rightarrow> Returned)\<rparr>)"
    using assms by (rule main_Parsed)
next
  fix i assume "i < length unknown_args div 2"
  then show "lstrip ''-'' (unknown_args ! (2 * i)) \<in> fst ` set (parse_unknown_args unknown_args)"
    by (rule keys_parse_unknown_args)
next
  fix i
  assume "i < length unknown_args div 2"
    and "\<forall>j. i < j \<and> j < length unknown_args div 2 \<longrightarrow>
           lstrip ''-'' (unknown_args ! (2 * j)) \<noteq> lstrip ''-'' (unknown_args ! (2 * i))"
  then show "map_of (parse_unknown_args unknown_args) (lstrip ''-'' (unknown_args ! (2 * i)))
      = Some (unknown_args ! (2 * i + 1))"
    by (rule map_of_parse_unknown_args_last)
next
  show "parse_unknown_args [''--verbose'', ''true''] = [(''verbose'', ''true'')]"
    by (simp add: parse_unknown_args_def lstrip_def)
qed

theorem main_forwards_kwargs_witness:
  "cli_parser [''env'', ''--verbose'', ''true''] =
     Parsed \<lparr>attrs = [], func = Some no_keyword_factory\<rparr> [''--verbose'', ''true''] \<and>
   main cli_parser [''env'', ''--verbose'', ''true''] =
     \<lparr>events = [SetVerbosityInfo, Construct [(''verbose'', ''true'')]],
      ended = Uncaught ''TypeError''\<rparr> \<and>
   (0::nat) < length [''--verbose'', ''true''] div 2 \<and>
   map_of (parse_unknown_args [''--verbose'', ''true'']) ''verbose'' = Some ''true''"
proof -
  let ?ns = "\<lparr>attrs = [], func = Some no_keyword_factory\<rparr>"
  let ?u = "[''--verbose'', ''true'']"
  have a: "cli_parser [''env'', ''--verbose'', ''true''] = Parsed ?ns ?u"
    by (simp add: parse_known_args_def three_commands_def positional_subparser_def finish_def
        classify_def before_equals_def negative_number_def is_digit_def)
  have b: "func ?ns = Some no_keyword_factory" by simp
  have i: "(0::nat) < length ?u div 2" by simp
  have later: "\<forall>j. (0::nat) < j \<and> j < length ?u div 2 \<longrightarrow>
      lstrip ''-'' (?u ! (2 * j)) \<noteq> lstrip ''-'' (?u ! (2 * 0))"
  proof (intro allI impI)
    fix j :: nat
    assume "0 < j \<and> j < length ?u div 2"
    then have False by auto
    then show "lstrip ''-'' (?u ! (2 * j)) \<noteq> lstrip ''-'' (?u ! (2 * 0))" ..
  qed
  note t = main_forwards_kwargs [of cli_parser "[''env'', ''--verbose'', ''true'']" ?ns ?u
      no_keyword_factory, OF a b]
  from t have kw: "parse_unknown_args ?u = [(''verbose'', ''true'')]"
    by blast
  from t have "main cli_parser [''env'', ''--verbose'', ''true''] =
      (case no_keyword_factory (attrs ?ns) (parse_unknown_args ?u) of
         Inl e \<Rightarrow> \<lparr>events = [SetVerbosityInfo, Construct (parse_unknown_args ?u)], ended = Uncaught e\<rparr>
       | Inr service \<Rightarrow>
           \<lparr>events = [SetVerbosityInfo, Construct (parse_unknown_args ?u), Run],
            ended = (case run service of Some e \<Rightarrow> Uncaught e | None \<Rightarrow> Returned)\<rparr>)"
    by blast
  then have m: "main cli_parser [''env'', ''--verbose'', ''true''] =
     \<lparr>events = [SetVerbosityInfo, Construct [(''verbose'', ''true'')]],
      ended = Uncaught ''TypeError''\<rparr>"
    by (simp add: kw no_keyword_factory_def)
  from t i later have "map_of (parse_unknown_args ?u) (lstrip ''-'' (?u ! (2 * 0))) = Some (?u ! (2 * 0 + 1))"
    by blast
  then have v: "map_of (parse_unknown_args ?u) ''verbose'' = Some ''true''"
    by (simp add: lstrip_def)
  from a m i v show ?thesis by blast
qed

subsection \<open>Errors of the subcommand\<close>

text \<open>
  Claim C7: an error raised by the factory ends \<^verbatim>\<open>main\<close> with that error uncaught
  after the single factory call, without a call of \<^verbatim>\<open>run\<close>; an error raised by
  \<^verbatim>\<open>run\<close> ends \<^verbatim>\<open>main\<close> with that error uncaught after one factory call and one
  call of \<^verbatim>\<open>run\<close>. In both cases the exit status is not zero, and nothing is tried
  again.
\<close>

theorem main_errors_propagate:
  assumes "parser argv = Parsed args unknown_args" and "func args = Some factory"
  shows "(factory (attrs args) (parse_unknown_args unknown_args) = Inl e \<longrightarrow>
            main parser argv =
              \<lparr>events = [SetVerbosityInfo, Construct (parse_unknown_args unknown_args)],
               ended = Uncaught e\<rparr>
            \<and> exit_status (ended (main parser argv)) \<noteq> 0) \<and>
         (factory (attrs args) (parse_unknown_args unknown_args) = Inr service \<and>
          run service = Some e \<longrightarrow>
            main parser argv =
              \<lparr>events = [SetVerbosityInfo, Construct (parse_unknown_args unknown_args), Run],
               ended = Uncaught e\<rparr>
            \<and> exit_status (ended (main parser argv)) \<noteq> 0)"
  by (simp add: main_Parsed [of parser argv args unknown_args factory, OF assms])

theorem main_errors_propagate_witness:
  "returning \<lparr>attrs = (), func = Some failing_factory\<rparr> [] [''test''] =
     Parsed \<lparr>attrs = (), func = Some failing_factory\<rparr> [] \<and>
   failing_factory (attrs \<lparr>attrs = (), func = Some failing_factory\<rparr>) (parse_unknown_args [])
     = Inl ''TypeError'' \<and>
   main (returning \<lparr>attrs = (), func = Some failing_factory\<rparr> []) [''test''] =
     \<lparr>events = [SetVerbosityInfo, Construct []], ended = Uncaught ''TypeError''\<rparr> \<and>
   returning \<lparr>attrs = (), func = Some failing_run_factory\<rparr> [] [''test''] =
     Parsed \<lparr>attrs = (), func = Some failing_run_factory\<rparr> [] \<and>
   failing_run_factory (attrs \<lparr>attrs = (), func = Some failing_run_factory\<rparr>)
       (parse_unknown_args []) = Inr (Service (Some ''RuntimeError'')) \<and>
   run (Service (Some ''RuntimeError'')) = Some ''RuntimeError'' \<and>
   main (returning \<lparr>attrs = (), func = Some failing_run_factory\<rparr> []) [''test''] =
     \<lparr>events = [SetVerbosityInfo, Construct [], Run], ended = Uncaught ''RuntimeError''\<rparr>"
proof -
  let ?n1 = "\<lparr>attrs = (), func = Some failing_factory\<rparr>"
  let ?n2 = "\<lparr>attrs = (), func = Some failing_run_factory\<rparr>"
  have p1: "returning ?n1 [] [''test''] = Parsed ?n1 []" by (simp add: returning_def)
  have p2: "returning ?n2 [] [''test''] = Parsed ?n2 []" by (simp add: returning_def)
  have f1: "func ?n1 = Some failing_factory" by simp
  have f2: "func ?n2 = Some failing_run_factory" by simp
  have r1: "failing_factory (attrs ?n1) (parse_unknown_args []) = Inl ''TypeError''"
    by (simp add: failing_factory_def)
  have r2: "failing_run_factory (attrs ?n2) (parse_unknown_args []) = Inr (Service (Some ''RuntimeError''))"
    by (simp add: failing_run_factory_def)
  have r3: "run (Service (Some ''RuntimeError'')) = Some ''RuntimeError''" by simp
  from main_errors_propagate [of "returning ?n1 []" "[''test'']" ?n1 "[]" failing_factory
      "''TypeError''" "Service None", OF p1 f1] r1
  have m1: "main (returning ?n1 []) [''test''] =
     \<lparr>events = [SetVerbosityInfo, Construct []], ended = Uncaught ''TypeError''\<rparr>"
    by (simp add: parse_unknown_args_Nil)
  from main_errors_propagate [of "returning ?n2 []" "[''test'']" ?n2 "[]" failing_run_factory
      "''RuntimeError''" "Service (Some ''RuntimeError'')", OF p2 f2] r2 r3
  have m2: "main (returning ?n2 []) [''test''] =
     \<lparr>events = [SetVerbosityInfo, Construct [], Run], ended = Uncaught ''RuntimeError''\<rparr>"
    by (simp add: parse_unknown_args_Nil)
  from p1 r1 m1 p2 r2 r3 m2 show ?thesis by blast
qed

end
